theory Spec2Isabelle
  imports Complex_Main
begin

section \<open>Numbers, slices and the clock\<close>

text \<open>
  Prices, volumes and every quantity computed from them are JavaScript numbers. They are
  modelled as finite reals with exact arithmetic: rounding, overflow and the sign of zero
  are not represented, and the inputs are finite numbers. The one way the engine turns
  finite numbers into a non-finite one is a division by zero, and every quotient whose
  divisor is computed from the bars is compared at once with a finite threshold. The
  comparison is modelled as JavaScript evaluates it: \<open>a / 0\<close> is \<open>NaN\<close> for
  \<open>a = 0\<close> (every comparison with it is false), \<open>+Infinity\<close> for \<open>0 < a\<close> and
  \<open>-Infinity\<close> for \<open>a < 0\<close>.
\<close>

definition div_le :: "real \<Rightarrow> real \<Rightarrow> real \<Rightarrow> bool" where
  \<comment> \<open>\<open>a / b <= c\<close>\<close>
  "div_le a b c = (if b = 0 then a < 0 else a / b \<le> c)"

text \<open>
  \<open>Math.max(...xs)\<close> and \<open>Math.min(...xs)\<close>. Every call in the engine passes a list
  that the length check before it has made non-empty, so the \<open>-Infinity\<close> and
  \<open>+Infinity\<close> of a call without arguments never arise; the model leaves that case
  unspecified.
\<close>

fun Math_max :: "real list \<Rightarrow> real" where
  "Math_max (x # xs) = fold max xs x"

fun Math_min :: "real list \<Rightarrow> real" where
  "Math_min (x # xs) = fold min xs x"

text \<open>
  \<open>xs.slice(start, fin)\<close> and \<open>xs.slice(start)\<close>: a negative index counts from the
  end, and both indices are clamped to the array.
\<close>

definition slice :: "'a list \<Rightarrow> int \<Rightarrow> int \<Rightarrow> 'a list" where
  "slice xs start fin =
     (let n = int (length xs);
          k = (if start < 0 then max (n + start) 0 else min start n);
          e = (if fin < 0 then max (n + fin) 0 else min fin n)
      in take (nat (e - k)) (drop (nat k) xs))"

definition sliceFrom :: "'a list \<Rightarrow> int \<Rightarrow> 'a list" where
  "sliceFrom xs start = slice xs start (int (length xs))"

text \<open>
  The engine reads the clock with \<open>new Date()\<close> and uses the local year and month of the
  reading only; it builds the quarter ends with \<open>new Date(year, monthIndex, day)\<close>, local
  midnight of that day. A reading is the record of what \<open>new Date()\<close> exposes; the
  constructor is a parameter \<open>mk\<close> of the functions that call it, giving the time value
  in milliseconds. A bar's \<open>timestamp\<close> is the time value of \<open>new Date(d.timestamp)\<close>,
  \<open>None\<close> for a string that does not parse (an invalid date, whose comparisons are all
  false).
\<close>

record clock =
  getTime :: int
  getFullYear :: int
  getMonth :: nat

type_synonym mkDate = "int \<Rightarrow> nat \<Rightarrow> nat \<Rightarrow> int"

definition date_le :: "int option \<Rightarrow> int \<Rightarrow> bool" where
  "date_le d b = (case d of None \<Rightarrow> False | Some t \<Rightarrow> t \<le> b)"

definition date_gt :: "int option \<Rightarrow> int \<Rightarrow> bool" where
  "date_gt d b = (case d of None \<Rightarrow> False | Some t \<Rightarrow> t > b)"

text \<open>
  The constructor in a process whose local time is UTC, as used in the examples below:
  days since 1970-01-01 of a civil date, times the milliseconds of a day.
\<close>

definition daysFromCivil :: "int \<Rightarrow> int \<Rightarrow> int \<Rightarrow> int" where
  "daysFromCivil y m d =
     (let y' = (if m \<le> 2 then y - 1 else y);
          era = y' div 400;
          yoe = y' - era * 400;
          mp = (m + 9) mod 12;
          doy = (153 * mp + 2) div 5 + d - 1;
          doe = yoe * 365 + yoe div 4 - yoe div 100 + doy
      in era * 146097 + doe - 719468)"

definition utcDate :: mkDate where
  "utcDate y m d = daysFromCivil y (int m + 1) (int d) * 86400000"

section \<open>Data model\<close>

record MarketData =
  timestamp :: "int option"
  asset :: string
  openp :: real
  high :: real
  low :: real
  close :: real
  volume :: real

datatype bias = Bullish | Bearish | Neutral

datatype zone = Premium | Equilibrium | Discount

record EntrySignal =
  e_asset :: string
  e_timeframe :: string
  strategy :: string
  entry_price :: real
  stop_loss :: real
  take_profit :: real
  e_bias :: bias
  confidence :: real

record Pattern =
  bullish :: bool
  bearish :: bool

record PDArrays =
  premium :: real
  equilibrium :: real
  discount :: real
  current :: real
  zone :: zone

record PDEntries =
  rejection :: bool
  breakout :: bool
  direction :: "bias option"

record IPDA =
  shouldBuy :: bool
  shouldSell :: bool
  phase :: string

section \<open>The entry-signal engine\<close>

subsection \<open>Pattern detectors\<close>

definition detectEngulfing :: "MarketData list \<Rightarrow> Pattern" where
  "detectEngulfing data =
     (if length data < 2 then \<lparr>bullish = False, bearish = False\<rparr>
      else
        let cur = data ! (length data - 1);
            previous = data ! (length data - 2);
            bullishEngulfing =
              (close previous < openp previous \<and> close cur > openp cur \<and>
               openp cur < close previous \<and> close cur > openp previous);
            bearishEngulfing =
              (close previous > openp previous \<and> close cur < openp cur \<and>
               openp cur > close previous \<and> close cur < openp previous)
        in \<lparr>bullish = bullishEngulfing, bearish = bearishEngulfing\<rparr>)"

definition detectDoji :: "MarketData \<Rightarrow> bool" where
  "detectDoji candle =
     (let bodySize = \<bar>close candle - openp candle\<bar>;
          rng = high candle - low candle
      in div_le bodySize rng 0.001)"

definition detectTurtleSoup :: "MarketData list \<Rightarrow> Pattern" where
  "detectTurtleSoup data =
     (if length data < 22 then \<lparr>bullish = False, bearish = False\<rparr>
      else
        let recent = sliceFrom data (-22);
            last20 = slice recent 0 20;
            breakoutCandles = sliceFrom recent (-2);
            high20 = Math_max (map high last20);
            low20 = Math_min (map low last20);
            falseBreakoutUp =
              (high (breakoutCandles ! 0) > high20 \<and> close (breakoutCandles ! 1) < high20);
            falseBreakoutDown =
              (low (breakoutCandles ! 0) < low20 \<and> close (breakoutCandles ! 1) > low20)
        in \<lparr>bullish = falseBreakoutDown, bearish = falseBreakoutUp\<rparr>)"

definition detectCRT :: "MarketData list \<Rightarrow> bool" where
  "detectCRT data =
     (if length data < 6 then False
      else
        let recent = sliceFrom data (-6);
            rangeHigh = Math_max (map high recent);
            rangeLow = Math_min (map low recent);
            rng = rangeHigh - rangeLow;
            midPoint = (rangeHigh + rangeLow) / 2
        in div_le rng midPoint 0.005)"

subsection \<open>Premium, equilibrium and discount levels\<close>

definition analyzePDArrays :: "MarketData list \<Rightarrow> PDArrays" where
  "analyzePDArrays data =
     (let recentData = sliceFrom data (-20)
      in if length recentData < 20
         then \<lparr>premium = 0, equilibrium = 0, discount = 0, current = 0, zone = Equilibrium\<rparr>
         else
           let rangeHigh = Math_max (map high recentData);
               rangeLow = Math_min (map low recentData);
               rng = rangeHigh - rangeLow;
               prem = rangeLow + rng * 0.75;
               equi = rangeLow + rng * 0.5;
               disc = rangeLow + rng * 0.25;
               cur = close (data ! (length data - 1));
               z = (if cur \<ge> prem then Premium
                    else if cur \<le> disc then Discount else Equilibrium)
           in \<lparr>premium = prem, equilibrium = equi, discount = disc, current = cur, zone = z\<rparr>)"

definition detectPDArrayEntries :: "MarketData list \<Rightarrow> PDArrays \<Rightarrow> PDEntries" where
  "detectPDArrayEntries data pdArrays =
     (if length data < 3 then \<lparr>rejection = False, breakout = False, direction = None\<rparr>
      else
        let recent = sliceFrom data (-3);
            cur = recent ! 2;
            previous = recent ! 1
        in if zone pdArrays = Premium \<and>
              high previous \<ge> premium pdArrays \<and> close cur < low previous
           then \<lparr>rejection = True, breakout = False, direction = Some Bearish\<rparr>
           else if zone pdArrays = Discount \<and>
              low previous \<le> discount pdArrays \<and> close cur > high previous
           then \<lparr>rejection = True, breakout = False, direction = Some Bullish\<rparr>
           else if close cur > premium pdArrays
           then \<lparr>rejection = False, breakout = True, direction = Some Bullish\<rparr>
           else if close cur < discount pdArrays
           then \<lparr>rejection = False, breakout = True, direction = Some Bearish\<rparr>
           else \<lparr>rejection = False, breakout = False, direction = None\<rparr>)"

definition currentQuarter :: "clock \<Rightarrow> nat" where
  \<comment> \<open>\<open>Math.floor(currentDate.getMonth() / 3) + 1\<close>\<close>
  "currentQuarter now = getMonth now div 3 + 1"

definition analyzeIPDA :: "clock \<Rightarrow> MarketData list \<Rightarrow> PDArrays \<Rightarrow> IPDA" where
  "analyzeIPDA now data pdArrays =
     (if currentQuarter now = 2 \<and> zone pdArrays = Discount
      then \<lparr>shouldBuy = True, shouldSell = False, phase = ''Q2_Markup''\<rparr>
      else if currentQuarter now = 3 \<and> zone pdArrays = Premium
      then \<lparr>shouldBuy = False, shouldSell = True, phase = ''Q3_Distribution''\<rparr>
      else \<lparr>shouldBuy = False, shouldSell = False, phase = ''Neutral''\<rparr>)"

subsection \<open>Average true range and the volatility gate\<close>

definition trueRange :: "MarketData \<Rightarrow> MarketData \<Rightarrow> real" where
  \<comment> \<open>the body of the loop: \<open>Math.max(tr1, tr2, tr3)\<close>\<close>
  "trueRange cur previous =
     (let tr1 = high cur - low cur;
          tr2 = \<bar>high cur - close previous\<bar>;
          tr3 = \<bar>low cur - close previous\<bar>
      in max (max tr1 tr2) tr3)"

function trueRangesLoop :: "MarketData list \<Rightarrow> nat \<Rightarrow> real list \<Rightarrow> real list" where
  "trueRangesLoop data i trueRanges =
     (if i < length data
      then trueRangesLoop data (i + 1)
             (trueRanges @ [trueRange (data ! i) (data ! (i - 1))])
      else trueRanges)"
  by pat_completeness auto
termination
  by (relation "measure (\<lambda>(data, i, trueRanges). length data - i)") auto

declare trueRangesLoop.simps [simp del]

text \<open>
  \<open>calculateATR(data, period = 20)\<close>. The period is a number of bars: the callers pass 14,
  20 and the default. \<open>trueRanges.slice(-period)\<close> is the whole array for a period of 0,
  where the source then divides by zero; the real-valued result of this model stands for
  the source's result for a period of at least 1.
\<close>

definition calculateATR :: "MarketData list \<Rightarrow> nat \<Rightarrow> real" where
  "calculateATR data period =
     (if length data < period + 1 then 0
      else
        let trueRanges = trueRangesLoop data 1 []
        in fold (\<lambda>tr sum. sum + tr) (sliceFrom trueRanges (- int period)) 0 / real period)"

record Volatility =
  isHighVolatility :: bool
  currentATR :: real
  avgATR :: real

definition analyzeVolatility :: "MarketData list \<Rightarrow> Volatility" where
  "analyzeVolatility data =
     (let cATR = calculateATR (sliceFrom data (-14)) 14;
          aATR = calculateATR (slice data (-34) (-14)) 20
      in \<lparr>isHighVolatility = cATR > aATR, currentATR = cATR, avgATR = aATR\<rparr>)"

subsection \<open>Quarterly bias\<close>

definition getQuarterlyBias :: "mkDate \<Rightarrow> clock \<Rightarrow> MarketData list \<Rightarrow> bias" where
  "getQuarterlyBias mk now data =
     (if length data < 60 then Neutral
      else
        let q1End = mk (getFullYear now) 2 31;
            q2End = mk (getFullYear now) 5 30;
            q3End = mk (getFullYear now) 8 30;
            q2Data = filter (\<lambda>d. date_le (timestamp d) q2End \<and> date_gt (timestamp d) q1End) data;
            q3Data = filter (\<lambda>d. date_le (timestamp d) q3End \<and> date_gt (timestamp d) q2End) data
        in if length q2Data = 0 then Neutral
           else
             let q2High = Math_max (map high q2Data);
                 q3Low = (if length q3Data > 0 then Math_min (map low q3Data) else q2High);
                 currentPrice = close (data ! (length data - 1))
             in if currentPrice > q2High then Bullish
                else if currentPrice < q3Low then Bearish
                else Neutral)"

subsection \<open>Signal synthesis\<close>

definition signal :: "string \<Rightarrow> string \<Rightarrow> real \<Rightarrow> real \<Rightarrow> bias \<Rightarrow> real \<Rightarrow> EntrySignal" where
  \<comment> \<open>the object literal of every \<open>signals.push\<close>: stop and target by direction\<close>
  "signal a strat currentPrice atr b conf =
     \<lparr>e_asset = a, e_timeframe = ''5min'', strategy = strat, entry_price = currentPrice,
      stop_loss = (if b = Bullish then currentPrice - atr * 1.5 else currentPrice + atr * 1.5),
      take_profit = (if b = Bullish then currentPrice + atr * 3 else currentPrice - atr * 3),
      e_bias = b, confidence = conf\<rparr>"

definition bias_name :: "bias \<Rightarrow> string" where
  "bias_name b = (case b of Bullish \<Rightarrow> ''bullish'' | Bearish \<Rightarrow> ''bearish'' | Neutral \<Rightarrow> ''neutral'')"

definition push_if :: "bool \<Rightarrow> 'a \<Rightarrow> 'a list \<Rightarrow> 'a list" where
  \<comment> \<open>\<open>if (c) signals.push(s)\<close>\<close>
  "push_if c s signals = (if c then signals @ [s] else signals)"

definition generateEntrySignals :: "mkDate \<Rightarrow> clock \<Rightarrow> string \<Rightarrow> MarketData list \<Rightarrow> EntrySignal list" where
  "generateEntrySignals mk now a data =
     (if length data < 60 then []
      else
        let currentPrice = close (data ! (length data - 1));
            atr = calculateATR data 20;
            volatility = analyzeVolatility data;
            b = getQuarterlyBias mk now data;
            pdArrays = analyzePDArrays data
        in if \<not> isHighVolatility volatility then []
           else
             let engulfing = detectEngulfing data;
                 hasDoji = detectDoji (data ! (length data - 1));
                 turtleSoup = detectTurtleSoup data;
                 crt = detectCRT data;
                 pdEntries = detectPDArrayEntries data pdArrays;
                 ipda = analyzeIPDA now data pdArrays
             in
               let s0 = [];
                   s1 = push_if (bullish engulfing \<and> b \<noteq> Bearish)
                          (signal a ''Bullish_Engulfing'' currentPrice atr Bullish 0.7) s0;
                   s2 = push_if (bearish engulfing \<and> b \<noteq> Bullish)
                          (signal a ''Bearish_Engulfing'' currentPrice atr Bearish 0.7) s1;
                   s3 = push_if (bullish turtleSoup)
                          (signal a ''Turtle_Soup_Bullish'' currentPrice atr Bullish 0.8) s2;
                   s4 = push_if (bearish turtleSoup)
                          (signal a ''Turtle_Soup_Bearish'' currentPrice atr Bearish 0.8) s3;
                   s5 = push_if (crt \<and> b = Bullish \<and> currentPrice > equilibrium pdArrays)
                          (signal a ''CRT_Breakout_Bullish'' currentPrice atr Bullish 0.6) s4;
                   s6 = push_if (crt \<and> b = Bearish \<and> currentPrice < equilibrium pdArrays)
                          (signal a ''CRT_Breakout_Bearish'' currentPrice atr Bearish 0.6) s5;
                   s7 = (case direction pdEntries of
                           None \<Rightarrow> s6
                         | Some entryBias \<Rightarrow>
                             push_if (rejection pdEntries)
                               (signal a (''PD_Array_Rejection_'' @ bias_name entryBias)
                                  currentPrice atr entryBias 0.75) s6);
                   s8 = push_if (shouldBuy ipda \<and> b \<noteq> Bearish)
                          (signal a ''IPDA_Discount_Buy'' currentPrice atr Bullish 0.85) s7;
                   s9 = push_if (shouldSell ipda \<and> b \<noteq> Bullish)
                          (signal a ''IPDA_Premium_Sell'' currentPrice atr Bearish 0.85) s8
               in s9)"

section \<open>The ICT signal engine\<close>

text \<open>
  Of this engine the development covers the quarterly bias, the liquidity pools, the zone
  levels and the average true range. The stop and target of its signal are sums and
  products rounded to doubles, which the exact reals of this model do not describe.
\<close>

datatype zone_kind = premium_level | equilibrium_level | discount_level | liquidity_pool

record LiquidityZone =
  ztype :: zone_kind
  price :: real
  strength :: nat

definition analyzeQuarterlyBias :: "mkDate \<Rightarrow> clock \<Rightarrow> MarketData list \<Rightarrow> bias" where
  "analyzeQuarterlyBias mk now data =
     (if length data < 60 then Neutral
      else
        let q1End = mk (getFullYear now) 2 31;
            q2End = mk (getFullYear now) 5 30;
            q3End = mk (getFullYear now) 8 30;
            q1Data = filter (\<lambda>d. date_le (timestamp d) q1End) data;
            q2Data = filter (\<lambda>d. date_le (timestamp d) q2End \<and> date_gt (timestamp d) q1End) data;
            q3Data = filter (\<lambda>d. date_le (timestamp d) q3End \<and> date_gt (timestamp d) q2End) data
        in if length q1Data = 0 \<or> length q2Data = 0 then Neutral
           else
             let q2High = Math_max (map high q2Data);
                 q3Low = (if length q3Data > 0 then Math_min (map low q3Data) else q2High);
                 currentPrice = close (data ! (length data - 1))
             in if currentPrice > q2High then Bullish
                else if currentPrice < q3Low then Bearish
                else Neutral)"

subsection \<open>Liquidity pools\<close>

definition tolerance :: real where
  "tolerance = 0.005"

text \<open>
  The inner loop, \<open>for (let j = i + 1; j < Math.min(i + 10, highs.length); j++)\<close>, with
  the bound already computed, and the outer loop,
  \<open>for (let i = 1; i < highs.length - 1; i++)\<close>. The source runs the same two loops over
  the highs and then over the lows, pushing onto one array.
\<close>

function equalLoop :: "real list \<Rightarrow> real \<Rightarrow> nat \<Rightarrow> nat \<Rightarrow> nat \<Rightarrow> nat" where
  "equalLoop xs base bound j equal =
     (if j < bound
      then equalLoop xs base bound (j + 1)
             (if div_le \<bar>xs ! j - base\<bar> base tolerance then equal + 1 else equal)
      else equal)"
  by pat_completeness auto
termination
  by (relation "measure (\<lambda>(xs, base, bound, j, equal). bound - j)") auto

declare equalLoop.simps [simp del]

function poolsLoop :: "real list \<Rightarrow> nat \<Rightarrow> LiquidityZone list \<Rightarrow> LiquidityZone list" where
  "poolsLoop xs i pools =
     (if int i < int (length xs) - 1
      then
        let base = xs ! i;
            equal = equalLoop xs base (min (i + 10) (length xs)) (i + 1) 1
        in poolsLoop xs (i + 1)
             (if equal \<ge> 2
              then pools @ [\<lparr>ztype = liquidity_pool, price = base, strength = equal\<rparr>]
              else pools)
      else pools)"
  by pat_completeness auto
termination
  by (relation "measure (\<lambda>(xs, i, pools). length xs - i)") auto

declare poolsLoop.simps [simp del]

definition identifyLiquidityPools :: "MarketData list \<Rightarrow> LiquidityZone list" where
  "identifyLiquidityPools data =
     (let highs = map high data;
          lows = map low data
      in poolsLoop lows 1 (poolsLoop highs 1 []))"

definition calculatePDArrays :: "MarketData list \<Rightarrow> LiquidityZone list" where
  "calculatePDArrays data =
     (let recentData = sliceFrom data (-20)
      in if length recentData < 20 then []
         else
           let rangeHigh = Math_max (map high recentData);
               rangeLow = Math_min (map low recentData);
               rng = rangeHigh - rangeLow
           in [\<lparr>ztype = premium_level, price = rangeLow + rng * 0.75, strength = 3\<rparr>,
               \<lparr>ztype = equilibrium_level, price = rangeLow + rng * 0.5, strength = 2\<rparr>,
               \<lparr>ztype = discount_level, price = rangeLow + rng * 0.25, strength = 3\<rparr>])"

subsection \<open>Average true range of the ICT engine\<close>

definition calculateATR_ict :: "MarketData list \<Rightarrow> real" where
  \<comment> \<open>\<open>calculateATR(data)\<close> of the ICT engine: no period, the mean of every true range\<close>
  "calculateATR_ict data =
     (if length data < 2 then 0
      else
        let trueRanges = trueRangesLoop data 1 []
        in fold (\<lambda>tr sum. sum + tr) trueRanges 0 / real (length trueRanges))"

section \<open>The specification's statements\<close>

text \<open>
  The definitions of this section follow the words of the specification, not the code;
  the theorems compare them with the code.

  The true range of the bar at index \<open>k\<close> of a series against the bar before it:
  \<open>max(high - low, |high - prevClose|, |low - prevClose|)\<close>.
\<close>

definition trueRangeAt :: "MarketData list \<Rightarrow> nat \<Rightarrow> real" where
  "trueRangeAt series k =
     Max {high (series ! k) - low (series ! k),
          \<bar>high (series ! k) - close (series ! (k - 1))\<bar>,
          \<bar>low (series ! k) - close (series ! (k - 1))\<bar>}"

text \<open>
  \<open>ATR(series, period)\<close>: the average of the last \<open>period\<close> true-range values ending at
  the series tail, 0 with fewer than \<open>period + 1\<close> bars.
\<close>

definition ATR_spec :: "MarketData list \<Rightarrow> nat \<Rightarrow> real" where
  "ATR_spec series period =
     (if length series < period + 1 then 0
      else sum_list (map (trueRangeAt series) [length series - period..<length series])
           / real period)"

text \<open>
  \<open>isHighVolatility(series)\<close>: the ATR over the most recent 14 bars exceeds the ATR over
  the 20 bars immediately before that 14-bar window.
\<close>

definition isHighVolatility_spec :: "MarketData list \<Rightarrow> bool" where
  "isHighVolatility_spec series =
     (ATR_spec series 14 > ATR_spec (take (length series - 14) series) 20)"

text \<open>
  \<open>quarterlyBias(series)\<close>. The quarters are calendar quarters of the evaluation
  year: a bar is at or before Mar 31 when its timestamp is before the first instant of
  Apr 1, and after Mar 31 when it is not; likewise for Jun 30 and Jul 1, Sep 30 and
  Oct 1. The Q1 window holds the bars at or before Mar 31, the Q2 window those after
  Mar 31 and at or before Jun 30, the Q3 window those after Jun 30 and at or before
  Sep 30. With at least 60 bars the bias is bullish if the last close exceeds the
  greatest high of the Q2 window, bearish if it is below the least low of the Q3 window
  (the Q2 high when that window is empty), and neutral otherwise; with fewer than 60
  bars it is neutral.
\<close>

definition date_lt :: "int option \<Rightarrow> int \<Rightarrow> bool" where
  "date_lt d b = (case d of None \<Rightarrow> False | Some t \<Rightarrow> t < b)"

definition date_ge :: "int option \<Rightarrow> int \<Rightarrow> bool" where
  "date_ge d b = (case d of None \<Rightarrow> False | Some t \<Rightarrow> t \<ge> b)"

definition q1Window :: "mkDate \<Rightarrow> clock \<Rightarrow> MarketData list \<Rightarrow> MarketData list" where
  "q1Window mk now series =
     filter (\<lambda>b. date_lt (timestamp b) (mk (getFullYear now) 3 1)) series"

definition q2Window :: "mkDate \<Rightarrow> clock \<Rightarrow> MarketData list \<Rightarrow> MarketData list" where
  "q2Window mk now series =
     filter (\<lambda>b. date_ge (timestamp b) (mk (getFullYear now) 3 1) \<and>
                 date_lt (timestamp b) (mk (getFullYear now) 6 1)) series"

definition q3Window :: "mkDate \<Rightarrow> clock \<Rightarrow> MarketData list \<Rightarrow> MarketData list" where
  "q3Window mk now series =
     filter (\<lambda>b. date_ge (timestamp b) (mk (getFullYear now) 6 1) \<and>
                 date_lt (timestamp b) (mk (getFullYear now) 9 1)) series"

definition quarterlyBias_spec :: "mkDate \<Rightarrow> clock \<Rightarrow> MarketData list \<Rightarrow> bias" where
  "quarterlyBias_spec mk now series =
     (if length series < 60 then Neutral
      else
        let q2High = Max (set (map high (q2Window mk now series)));
            q3Low = (if q3Window mk now series = [] then q2High
                     else Min (set (map low (q3Window mk now series))));
            lastClose = close (last series)
        in if lastClose > q2High then Bullish
           else if lastClose < q3Low then Bearish
           else Neutral)"

text \<open>
  The last day of a quarter, after its first instant: Mar 31, Jun 30 or Sep 30 of the
  evaluation year, from just after local midnight to the end of the day. The calendar
  orders the first instant of each of these days before that of the day after it.
\<close>

definition on_quarter_end_day :: "mkDate \<Rightarrow> clock \<Rightarrow> MarketData \<Rightarrow> bool" where
  "on_quarter_end_day mk now b =
     ((date_gt (timestamp b) (mk (getFullYear now) 2 31) \<and>
       date_lt (timestamp b) (mk (getFullYear now) 3 1)) \<or>
      (date_gt (timestamp b) (mk (getFullYear now) 5 30) \<and>
       date_lt (timestamp b) (mk (getFullYear now) 6 1)) \<or>
      (date_gt (timestamp b) (mk (getFullYear now) 8 30) \<and>
       date_lt (timestamp b) (mk (getFullYear now) 9 1)))"

definition days_in_order :: "mkDate \<Rightarrow> clock \<Rightarrow> bool" where
  "days_in_order mk now =
     (mk (getFullYear now) 2 31 < mk (getFullYear now) 3 1 \<and>
      mk (getFullYear now) 5 30 < mk (getFullYear now) 6 1 \<and>
      mk (getFullYear now) 8 30 < mk (getFullYear now) 9 1)"

text \<open>
  \<open>liquidityPools(series)\<close>. A price \<open>x\<close> lies within 0.5% relative tolerance of a price
  \<open>p\<close> when \<open>|x - p| / p\<close> is at most 0.005. At an interior index \<open>i\<close> the pool
  counts the bar itself and the matching prices among the next \<open>w\<close> bars, as far as the
  series reaches, and is emitted with that count as its strength when the count is at
  least 2. The pools of the highs come first, those of the lows after them, none removed.
\<close>

definition within_tolerance :: "real \<Rightarrow> real \<Rightarrow> bool" where
  "within_tolerance x p = div_le \<bar>x - p\<bar> p 0.005"

definition poolAt :: "nat \<Rightarrow> real list \<Rightarrow> nat \<Rightarrow> LiquidityZone list" where
  "poolAt w prices i =
     (let matches = filter (\<lambda>j. within_tolerance (prices ! j) (prices ! i))
                      [i + 1..<min (i + 1 + w) (length prices)];
          count = 1 + length matches
      in if count \<ge> 2
         then [\<lparr>ztype = liquidity_pool, price = prices ! i, strength = count\<rparr>]
         else [])"

definition pools_spec :: "nat \<Rightarrow> real list \<Rightarrow> LiquidityZone list" where
  "pools_spec w prices = concat (map (poolAt w prices) [1..<length prices - 1])"

definition liquidityPools_spec :: "nat \<Rightarrow> MarketData list \<Rightarrow> LiquidityZone list" where
  "liquidityPools_spec w series =
     pools_spec w (map high series) @ pools_spec w (map low series)"

section \<open>Example inputs\<close>

text \<open>
  The clock of the examples reads 2026-11-03 in UTC; \<open>1777593600000\<close> is
  2026-05-01T00:00:00Z.
\<close>

definition nov3 :: clock where
  "nov3 = \<lparr>getTime = 1793664000000, getFullYear = 2026, getMonth = 10\<rparr>"

definition nov3_later :: clock where
  \<comment> \<open>one hour later on the same day\<close>
  "nov3_later = \<lparr>getTime = 1793667600000, getFullYear = 2026, getMonth = 10\<rparr>"

definition flatBar :: MarketData where
  "flatBar = \<lparr>timestamp = Some 1777593600000, asset = ''XAUUSD'', openp = 100, high = 100,
     low = 100, close = 100, volume = 10\<rparr>"

definition wideBar :: MarketData where
  "wideBar = \<lparr>timestamp = Some 1777593600000, asset = ''XAUUSD'', openp = 100, high = 102,
     low = 98, close = 100, volume = 10\<rparr>"

definition threeBars :: "MarketData list" where
  "threeBars =
     [\<lparr>timestamp = Some 1777593600000, asset = ''XAUUSD'', openp = 9, high = 10, low = 8,
        close = 9, volume = 10\<rparr>,
      \<lparr>timestamp = Some 1777593900000, asset = ''XAUUSD'', openp = 9, high = 12, low = 9,
        close = 11, volume = 10\<rparr>,
      \<lparr>timestamp = Some 1777594200000, asset = ''XAUUSD'', openp = 11, high = 11, low = 10,
        close = 10, volume = 10\<rparr>]"

definition hiBar :: MarketData where
  "hiBar = \<lparr>timestamp = Some 1777593600000, asset = ''XAUUSD'', openp = 105, high = 110,
     low = 100, close = 105, volume = 10\<rparr>"

definition loBar :: MarketData where
  "loBar = \<lparr>timestamp = Some 1777593600000, asset = ''XAUUSD'', openp = 95, high = 100,
     low = 90, close = 95, volume = 10\<rparr>"

definition zoneBars :: "MarketData list" where
  "zoneBars = replicate 10 hiBar @ replicate 15 loBar"

text \<open>
  Forty-six flat bars followed by fourteen bars that each span 98 to 102.
\<close>

definition volatileSeries :: "MarketData list" where
  "volatileSeries = replicate 46 flatBar @ replicate 14 wideBar"

text \<open>
  Bars of 2026-03-01, of 2026-03-31 at noon and of 2026-10-01; a series with bars in the
  Q2 window only before its last bar, one that also starts in the Q1 window, and one
  that starts on Mar 31 at noon.
\<close>

definition marBar :: MarketData where
  "marBar = \<lparr>timestamp = Some 1772323200000, asset = ''XAUUSD'', openp = 90, high = 91,
     low = 89, close = 90, volume = 10\<rparr>"

definition noonBar :: MarketData where
  "noonBar = \<lparr>timestamp = Some 1774958400000, asset = ''XAUUSD'', openp = 90, high = 91,
     low = 89, close = 90, volume = 10\<rparr>"

definition octBar :: MarketData where
  "octBar = \<lparr>timestamp = Some 1790812800000, asset = ''XAUUSD'', openp = 119, high = 121,
     low = 119, close = 120, volume = 10\<rparr>"

definition springSeries :: "MarketData list" where
  "springSeries = replicate 59 flatBar @ [octBar]"

definition yearSeries :: "MarketData list" where
  "yearSeries = marBar # replicate 58 flatBar @ [octBar]"

definition noonSeries :: "MarketData list" where
  "noonSeries = noonBar # replicate 58 flatBar @ [octBar]"

text \<open>
  Twelve bars whose highs at the indices 1 and 11 are equal and otherwise far apart, and
  four bars with equal highs at the indices 1 and 2.
\<close>

definition mkBar :: "real \<Rightarrow> real \<Rightarrow> MarketData" where
  "mkBar h l = \<lparr>timestamp = Some 1777593600000, asset = ''XAUUSD'', openp = l, high = h,
     low = l, close = h, volume = 10\<rparr>"

definition poolSeries :: "MarketData list" where
  "poolSeries =
     [mkBar 10 5, mkBar 100 50, mkBar 20 6, mkBar 30 7, mkBar 40 8, mkBar 50 9,
      mkBar 60 11, mkBar 70 12, mkBar 80 13, mkBar 90 14, mkBar 110 15, mkBar 100 16]"

definition pairSeries :: "MarketData list" where
  "pairSeries = [mkBar 10 5, mkBar 100 50, mkBar 100 6, mkBar 30 7]"

section \<open>Slices\<close>

lemma length_sliceFrom_neg:
  "length (sliceFrom xs (- int n)) = (if n = 0 then length xs else min n (length xs))"
  by (auto simp: sliceFrom_def slice_def Let_def)

lemma length_slice_neg_le:
  "0 < m \<Longrightarrow> 0 < k \<Longrightarrow> length (slice xs (- int m) (- int k)) \<le> m - k"
  by (auto simp: slice_def Let_def max_def)

lemma sliceFrom_neg_drop:
  "0 < n \<Longrightarrow> sliceFrom xs (- int n) = drop (length xs - n) xs"
proof -
  assume "0 < n"
  have "nat (max (int (length xs) - int n) 0) = length xs - n"
    by (auto simp: max_def)
  with \<open>0 < n\<close> show ?thesis
    by (simp add: sliceFrom_def slice_def Let_def)
qed

section \<open>The volatility gate\<close>

lemma calculateATR_short: "length xs < period + 1 \<Longrightarrow> calculateATR xs period = 0"
  by (simp add: calculateATR_def)

lemma currentATR_zero: "calculateATR (sliceFrom data (-14)) 14 = 0"
proof -
  have "length (sliceFrom data (-14)) \<le> 14"
    using length_sliceFrom_neg [of data 14] by simp
  then show ?thesis by (simp add: calculateATR_short)
qed

lemma avgATR_zero: "calculateATR (slice data (-34) (-14)) 20 = 0"
proof -
  have "length (slice data (-34) (-14)) \<le> 20"
    using length_slice_neg_le [of 34 14 data] by simp
  then show ?thesis by (simp add: calculateATR_short)
qed

text \<open>
  C1. Whatever the series, \<open>analyzeVolatility\<close> hands \<open>calculateATR\<close> a window of at
  most 14 bars with period 14 and a window of at most 20 bars with period 20. Both fall
  under the guard for fewer than period + 1 bars, so both averages are 0, \<open>0 > 0\<close> is
  false, and \<open>generateEntrySignals\<close> returns the empty list for every input.
\<close>

theorem gate_always_rejects:
  "currentATR (analyzeVolatility data) = 0 \<and>
   avgATR (analyzeVolatility data) = 0 \<and>
   \<not> isHighVolatility (analyzeVolatility data) \<and>
   generateEntrySignals mk now a data = []"
  by (simp add: analyzeVolatility_def generateEntrySignals_def currentATR_zero avgATR_zero
      Let_def)

text \<open>
  C3. A series of fewer than 60 bars, and a series that \<open>analyzeVolatility\<close> does not
  class as highly volatile, both make \<open>generateEntrySignals\<close> return the empty list,
  a value and not an error; no pattern detector is consulted on either path.
\<close>

theorem gate_closed_emits_nothing:
  "length data < 60 \<or> \<not> isHighVolatility (analyzeVolatility data) \<Longrightarrow>
   generateEntrySignals mk now a data = []"
  by (auto simp: generateEntrySignals_def Let_def)

theorem gate_closed_emits_nothing_witness:
  "(length (replicate 60 flatBar) < 60 \<or>
    \<not> isHighVolatility (analyzeVolatility (replicate 60 flatBar))) \<and>
   generateEntrySignals utcDate nov3 ''XAUUSD'' (replicate 60 flatBar) = []"
proof -
  have h: "length (replicate 60 flatBar) < 60 \<or>
      \<not> isHighVolatility (analyzeVolatility (replicate 60 flatBar))"
    by (simp add: analyzeVolatility_def calculateATR_def slice_def sliceFrom_def Let_def)
  show ?thesis using h gate_closed_emits_nothing [OF h] by simp
qed

section \<open>Determinism\<close>

text \<open>
  C10. The pipeline reads nothing but its arguments and the clock, and of the clock only
  the local year and month. Two invocations of \<open>generateEntrySignals\<close> on the same series
  whose clock readings fall on the same date return the same list of signals, element
  for element.
\<close>

theorem pipeline_deterministic:
  "getFullYear now = getFullYear now' \<Longrightarrow> getMonth now = getMonth now' \<Longrightarrow>
   generateEntrySignals mk now a data = generateEntrySignals mk now' a data"
proof -
  assume y: "getFullYear now = getFullYear now'" and m: "getMonth now = getMonth now'"
  have b: "getQuarterlyBias mk now data = getQuarterlyBias mk now' data"
    by (simp add: getQuarterlyBias_def y)
  have i: "\<And>p. analyzeIPDA now data p = analyzeIPDA now' data p"
    by (simp add: analyzeIPDA_def currentQuarter_def m)
  show ?thesis
    by (simp only: generateEntrySignals_def b i)
qed

theorem pipeline_deterministic_witness:
  "getFullYear nov3 = getFullYear nov3_later \<and> getMonth nov3 = getMonth nov3_later \<and>
   nov3 \<noteq> nov3_later \<and>
   generateEntrySignals utcDate nov3 ''XAUUSD'' (replicate 60 flatBar) =
   generateEntrySignals utcDate nov3_later ''XAUUSD'' (replicate 60 flatBar)"
proof -
  have y: "getFullYear nov3 = getFullYear nov3_later"
    by (simp add: nov3_def nov3_later_def)
  have m: "getMonth nov3 = getMonth nov3_later"
    by (simp add: nov3_def nov3_later_def)
  have "nov3 \<noteq> nov3_later"
    by (simp add: nov3_def nov3_later_def)
  then show ?thesis
    using y m pipeline_deterministic [OF y m, of utcDate "''XAUUSD''" "replicate 60 flatBar"]
    by simp
qed

section \<open>Average true range\<close>

lemma trueRangesLoop_eq:
  "trueRangesLoop data i acc =
   acc @ map (\<lambda>k. trueRange (data ! k) (data ! (k - 1))) [i..<length data]"
proof (induction data i acc rule: trueRangesLoop.induct)
  case (1 data i trueRanges)
  show ?case
  proof (cases "i < length data")
    case True
    then show ?thesis
      using "1.IH" [OF True] by (subst trueRangesLoop.simps) (simp add: upt_conv_Cons)
  next
    case False
    then show ?thesis by (subst trueRangesLoop.simps) simp
  qed
qed

lemma fold_add_sum_list: "fold (\<lambda>x s. s + x) xs (a::real) = a + sum_list xs"
  by (induction xs arbitrary: a) simp_all

lemma trueRange_at: "trueRange (data ! k) (data ! (k - 1)) = trueRangeAt data k"
  unfolding trueRange_def trueRangeAt_def Let_def by (simp add: max.assoc)

lemma calculateATR_ict_mean:
  "calculateATR_ict data =
     (if length data < 2 then 0
      else sum_list (map (trueRangeAt data) [1..<length data]) / real (length data - 1))"
proof (cases "length data < 2")
  case True
  then show ?thesis by (simp add: calculateATR_ict_def)
next
  case False
  have "trueRangesLoop data 1 [] = map (trueRangeAt data) [1..<length data]"
    by (simp only: trueRangesLoop_eq trueRange_at append_Nil)
  then show ?thesis
    using False by (simp add: calculateATR_ict_def Let_def fold_add_sum_list)
qed

lemma calculateATR_mean:
  assumes "0 < period"
  shows "calculateATR data period = ATR_spec data period"
proof (cases "length data < period + 1")
  case True
  then show ?thesis by (simp add: calculateATR_def ATR_spec_def)
next
  case False
  have "trueRangesLoop data 1 [] = map (trueRangeAt data) [1..<length data]"
    by (simp only: trueRangesLoop_eq trueRange_at append_Nil)
  then have "sliceFrom (trueRangesLoop data 1 []) (- int period) =
      drop (length data - 1 - period) (map (trueRangeAt data) [1..<length data])"
    using assms by (simp add: sliceFrom_neg_drop)
  also have "\<dots> = map (trueRangeAt data) [length data - period..<length data]"
  proof -
    have "1 + (length data - 1 - period) = length data - period"
      using False by arith
    then show ?thesis by (simp add: drop_map del: One_nat_def)
  qed
  finally show ?thesis
    using False by (simp add: calculateATR_def ATR_spec_def Let_def fold_add_sum_list)
qed

text \<open>
  C5. For every series and every period of at least one bar, \<open>calculateATR\<close> returns 0
  when the series has fewer than period + 1 bars, and otherwise the arithmetic mean of
  the last period true ranges, those of the bars at the indices from length - period to
  the tail, each against the bar before it. The ICT engine's \<open>calculateATR\<close> takes the
  mean of every true range of the series it is given, 0 with fewer than 2 bars.
\<close>

theorem atr_mean_of_last_true_ranges:
  "0 < period \<Longrightarrow>
   calculateATR data period =
     (if length data < period + 1 then 0
      else sum_list (map (trueRangeAt data) [length data - period..<length data]) / real period) \<and>
   calculateATR_ict data =
     (if length data < 2 then 0
      else sum_list (map (trueRangeAt data) [1..<length data]) / real (length data - 1))"
  using calculateATR_mean [of period data] calculateATR_ict_mean [of data]
  by (simp add: ATR_spec_def)

theorem atr_mean_of_last_true_ranges_witness:
  "(0::nat) < 2 \<and> calculateATR threeBars 2 = 2 \<and> calculateATR_ict threeBars = 2 \<and>
   calculateATR threeBars 3 = 0"
  using atr_mean_of_last_true_ranges [of 2 threeBars] atr_mean_of_last_true_ranges [of 3 threeBars]
  by (simp add: threeBars_def trueRangeAt_def upt_rec)

section \<open>Zones\<close>

lemma Math_max_Max: "xs \<noteq> [] \<Longrightarrow> Math_max xs = Max (set xs)"
proof (cases xs)
  case (Cons a list)
  then show ?thesis using Max.set_eq_fold [of a list] by simp
qed simp

lemma Math_min_Min: "xs \<noteq> [] \<Longrightarrow> Math_min xs = Min (set xs)"
proof (cases xs)
  case (Cons a list)
  then show ?thesis using Min.set_eq_fold [of a list] by simp
qed simp

text \<open>
  C6. For every series of at least 20 bars, with the range high the greatest high and the
  range low the least low of the trailing 20 bars, both zone computations yield
  discount = low + 0.25 range, equilibrium = low + 0.5 range and
  premium = low + 0.75 range; for a window with range high 110 and range low 90 these
  are 95, 100 and 105.
\<close>

theorem zones_of_trailing_window:
  "20 \<le> length data \<Longrightarrow>
   (let window = drop (length data - 20) data;
        rangeHigh = Max (set (map high window));
        rangeLow = Min (set (map low window));
        rng = rangeHigh - rangeLow
    in discount (analyzePDArrays data) = rangeLow + 0.25 * rng \<and>
       equilibrium (analyzePDArrays data) = rangeLow + 0.5 * rng \<and>
       premium (analyzePDArrays data) = rangeLow + 0.75 * rng \<and>
       calculatePDArrays data =
         [\<lparr>ztype = premium_level, price = rangeLow + 0.75 * rng, strength = 3\<rparr>,
          \<lparr>ztype = equilibrium_level, price = rangeLow + 0.5 * rng, strength = 2\<rparr>,
          \<lparr>ztype = discount_level, price = rangeLow + 0.25 * rng, strength = 3\<rparr>] \<and>
       (rangeHigh = 110 \<and> rangeLow = 90 \<longrightarrow>
          discount (analyzePDArrays data) = 95 \<and>
          equilibrium (analyzePDArrays data) = 100 \<and>
          premium (analyzePDArrays data) = 105 \<and>
          map price (calculatePDArrays data) = [105, 100, 95]))"
proof -
  assume len: "20 \<le> length data"
  define window where "window = drop (length data - 20) data"
  have w: "sliceFrom data (-20) = window"
    using sliceFrom_neg_drop [of 20 data] by (simp add: window_def)
  have lw: "length window = 20"
    using len by (simp add: window_def)
  then have ne: "map high window \<noteq> []" "map low window \<noteq> []"
    by auto
  have mx: "Math_max (map high window) = Max (set (map high window))"
    by (rule Math_max_Max [OF ne(1)])
  have mn: "Math_min (map low window) = Min (set (map low window))"
    by (rule Math_min_Min [OF ne(2)])
  show ?thesis
    unfolding window_def [symmetric]
    by (simp add: analyzePDArrays_def calculatePDArrays_def w lw mx mn Let_def)
qed

theorem zones_of_trailing_window_witness:
  "20 \<le> length zoneBars \<and>
   Max (set (map high (drop (length zoneBars - 20) zoneBars))) = 110 \<and>
   Min (set (map low (drop (length zoneBars - 20) zoneBars))) = 90 \<and>
   discount (analyzePDArrays zoneBars) = 95 \<and>
   equilibrium (analyzePDArrays zoneBars) = 100 \<and>
   premium (analyzePDArrays zoneBars) = 105 \<and>
   map price (calculatePDArrays zoneBars) = [105, 100, 95]"
proof -
  have l: "20 \<le> length zoneBars"
    by (simp add: zoneBars_def)
  have h: "Max (set (map high (drop (length zoneBars - 20) zoneBars))) = 110"
    by (simp add: zoneBars_def hiBar_def loBar_def)
  have m: "Min (set (map low (drop (length zoneBars - 20) zoneBars))) = 90"
    by (simp add: zoneBars_def hiBar_def loBar_def)
  show ?thesis
    using l h m zones_of_trailing_window [OF l] by (simp add: Let_def)
qed

section \<open>Doji\<close>

lemma doji_nonzero_range:
  "high c \<noteq> low c \<Longrightarrow>
   detectDoji c = (\<bar>close c - openp c\<bar> / (high c - low c) \<le> 0.001)"
  by (simp add: detectDoji_def div_le_def Let_def)

text \<open>
  C7. A bar of zero range with equal open and close, which the claim classes as a doji:
  \<open>detectDoji\<close> divides 0 by 0 and compares \<open>NaN\<close> with the threshold, so it answers
  false.
\<close>

theorem doji_zero_range_rejected:
  "high flatBar = low flatBar \<and> close flatBar = openp flatBar \<and> \<not> detectDoji flatBar"
  by (simp add: detectDoji_def div_le_def flatBar_def)

section \<open>The volatility comparison\<close>

lemma trueRangeAt_flat_wide:
  "k < 60 \<Longrightarrow> trueRangeAt volatileSeries k = (if k < 46 then 0 else 4)"
  by (auto simp: trueRangeAt_def volatileSeries_def nth_append flatBar_def wideBar_def)

lemma recent_atr: "ATR_spec volatileSeries 14 = 4"
proof -
  have "\<And>k. k \<in> set [46..<60] \<Longrightarrow> trueRangeAt volatileSeries k = 4"
    by (simp only: set_upt atLeastLessThan_iff) (simp add: trueRangeAt_flat_wide)
  then have "map (trueRangeAt volatileSeries) [46..<60] = map (\<lambda>k. 4) [46..<60]"
    by (rule map_cong [OF refl])
  moreover have "length volatileSeries = 60"
    by (simp add: volatileSeries_def)
  ultimately show ?thesis
    by (simp add: ATR_spec_def sum_list_triv)
qed

lemma prior_atr: "ATR_spec (take 46 volatileSeries) 20 = 0"
proof -
  have t: "take 46 volatileSeries = replicate 46 flatBar"
    by (simp add: volatileSeries_def)
  have "\<And>k. k \<in> set [26..<46] \<Longrightarrow> trueRangeAt (replicate 46 flatBar) k = 0"
    by (simp only: set_upt atLeastLessThan_iff) (auto simp: trueRangeAt_def flatBar_def)
  then have "map (trueRangeAt (replicate 46 flatBar)) [26..<46] = map (\<lambda>k. 0) [26..<46]"
    by (rule map_cong [OF refl])
  then show ?thesis
    by (simp add: t ATR_spec_def)
qed

text \<open>
  C2. On a series of 60 bars whose last 14 true ranges average 4 while the 20 before them
  average 0, the recent ATR exceeds the prior one, yet \<open>analyzeVolatility\<close> answers that
  volatility is not high: it passes \<open>calculateATR\<close> windows of exactly 14 and 20 bars,
  one bar short of what periods 14 and 20 need.
\<close>

theorem volatility_gate_misses_rising_atr:
  "length volatileSeries = 60 \<and>
   ATR_spec volatileSeries 14 = 4 \<and>
   ATR_spec (take (length volatileSeries - 14) volatileSeries) 20 = 0 \<and>
   isHighVolatility_spec volatileSeries \<and>
   \<not> isHighVolatility (analyzeVolatility volatileSeries)"
proof -
  have "length volatileSeries = 60"
    by (simp add: volatileSeries_def)
  then show ?thesis
    by (simp add: recent_atr prior_atr isHighVolatility_spec_def analyzeVolatility_def
      currentATR_zero avgATR_zero)
qed

section \<open>Quarterly bias\<close>

lemma windows_agree:
  assumes ord: "days_in_order mk now"
    and nb: "\<not> list_ex (on_quarter_end_day mk now) data"
  shows "filter (\<lambda>d. date_le (timestamp d) (mk (getFullYear now) 2 31)) data =
      q1Window mk now data"
    and "filter (\<lambda>d. date_le (timestamp d) (mk (getFullYear now) 5 30) \<and>
      date_gt (timestamp d) (mk (getFullYear now) 2 31)) data = q2Window mk now data"
    and "filter (\<lambda>d. date_le (timestamp d) (mk (getFullYear now) 8 30) \<and>
      date_gt (timestamp d) (mk (getFullYear now) 5 30)) data = q3Window mk now data"
proof -
  have off: "\<And>d. d \<in> set data \<Longrightarrow> \<not> on_quarter_end_day mk now d"
    using nb by (simp add: list_ex_iff)
  show "filter (\<lambda>d. date_le (timestamp d) (mk (getFullYear now) 2 31)) data =
      q1Window mk now data"
    unfolding q1Window_def
  proof (rule filter_cong [OF refl])
    fix d assume "d \<in> set data"
    then show "date_le (timestamp d) (mk (getFullYear now) 2 31) =
        date_lt (timestamp d) (mk (getFullYear now) 3 1)"
      using off [of d] ord
      by (auto simp: on_quarter_end_day_def days_in_order_def date_le_def date_lt_def
          date_gt_def split: option.splits)
  qed
  show "filter (\<lambda>d. date_le (timestamp d) (mk (getFullYear now) 5 30) \<and>
      date_gt (timestamp d) (mk (getFullYear now) 2 31)) data = q2Window mk now data"
    unfolding q2Window_def
  proof (rule filter_cong [OF refl])
    fix d assume "d \<in> set data"
    then show "(date_le (timestamp d) (mk (getFullYear now) 5 30) \<and>
        date_gt (timestamp d) (mk (getFullYear now) 2 31)) =
        (date_ge (timestamp d) (mk (getFullYear now) 3 1) \<and>
         date_lt (timestamp d) (mk (getFullYear now) 6 1))"
      using off [of d] ord
      by (auto simp: on_quarter_end_day_def days_in_order_def date_le_def date_lt_def
          date_gt_def date_ge_def split: option.splits)
  qed
  show "filter (\<lambda>d. date_le (timestamp d) (mk (getFullYear now) 8 30) \<and>
      date_gt (timestamp d) (mk (getFullYear now) 5 30)) data = q3Window mk now data"
    unfolding q3Window_def
  proof (rule filter_cong [OF refl])
    fix d assume "d \<in> set data"
    then show "(date_le (timestamp d) (mk (getFullYear now) 8 30) \<and>
        date_gt (timestamp d) (mk (getFullYear now) 5 30)) =
        (date_ge (timestamp d) (mk (getFullYear now) 6 1) \<and>
         date_lt (timestamp d) (mk (getFullYear now) 9 1))"
      using off [of d] ord
      by (auto simp: on_quarter_end_day_def days_in_order_def date_le_def date_lt_def
          date_gt_def date_ge_def split: option.splits)
  qed
qed

lemma getQuarterlyBias_spec:
  assumes ord: "days_in_order mk now"
    and nb: "\<not> list_ex (on_quarter_end_day mk now) data"
    and q: "length data < 60 \<or> q2Window mk now data \<noteq> []"
  shows "getQuarterlyBias mk now data = quarterlyBias_spec mk now data"
proof (cases "length data < 60")
  case True
  then show ?thesis by (simp add: getQuarterlyBias_def quarterlyBias_spec_def)
next
  case False
  then have q2: "q2Window mk now data \<noteq> []" and ne: "data \<noteq> []"
    using q by auto
  have l: "data ! (length data - 1) = last data"
    using ne by (simp add: last_conv_nth)
  note e = windows_agree [OF ord nb]
  have mx: "Math_max (map high (q2Window mk now data)) = Max (set (map high (q2Window mk now data)))"
    using q2 by (simp add: Math_max_Max)
  have mn: "q3Window mk now data \<noteq> [] \<Longrightarrow>
      Math_min (map low (q3Window mk now data)) = Min (set (map low (q3Window mk now data)))"
    by (simp add: Math_min_Min)
  show ?thesis
    using False q2 mn
    by (simp add: getQuarterlyBias_def quarterlyBias_spec_def e mx l Let_def
        del: One_nat_def)
qed

lemma analyzeQuarterlyBias_getQuarterlyBias:
  "analyzeQuarterlyBias mk now data =
     (if filter (\<lambda>d. date_le (timestamp d) (mk (getFullYear now) 2 31)) data = []
      then Neutral else getQuarterlyBias mk now data)"
  by (simp add: analyzeQuarterlyBias_def getQuarterlyBias_def Let_def)

lemma utc_q_ends:
  "utcDate 2026 2 31 = 1774915200000" "utcDate 2026 5 30 = 1782777600000"
  "utcDate 2026 8 30 = 1790726400000"
  by (simp_all add: utcDate_def daysFromCivil_def)

lemma utc_q_starts:
  "utcDate 2026 3 1 = 1775001600000" "utcDate 2026 6 1 = 1782864000000"
  "utcDate 2026 9 1 = 1790812800000"
  "utcDate 2026 3 (Suc 0) = 1775001600000" "utcDate 2026 6 (Suc 0) = 1782864000000"
  "utcDate 2026 9 (Suc 0) = 1790812800000"
  by (simp_all add: utcDate_def daysFromCivil_def)

lemma utc_days_in_order: "days_in_order utcDate nov3"
  by (simp add: days_in_order_def nov3_def utc_q_ends utc_q_starts)

text \<open>
  The quarter ends of the code are the first instants of Mar 31, Jun 30 and Sep 30, which
  its comments call the ends of the quarters. A bar of Mar 31 at noon is at or before
  Mar 31, yet \<open>analyzeQuarterlyBias\<close> finds no bar of the first quarter in a series
  that starts with it and returns neutral where the calendar windows give bullish.
\<close>

lemma quarter_end_day_slip:
  "list_ex (on_quarter_end_day utcDate nov3) noonSeries \<and>
   q1Window utcDate nov3 noonSeries \<noteq> [] \<and>
   quarterlyBias_spec utcDate nov3 noonSeries = Bullish \<and>
   analyzeQuarterlyBias utcDate nov3 noonSeries = Neutral"
  by (simp add: noonSeries_def quarterlyBias_spec_def q1Window_def q2Window_def q3Window_def
        on_quarter_end_day_def nov3_def utc_q_ends utc_q_starts date_le_def date_gt_def
        date_lt_def date_ge_def flatBar_def noonBar_def octBar_def analyzeQuarterlyBias_def)

text \<open>
  C9, as the claim states it, fails for \<open>analyzeQuarterlyBias\<close>: on a series of 60 bars
  with 59 bars in the Q2 window, no bar on the last day of a quarter, none at or before
  Mar 31, and a last close above the Q2 high, the claim gives bullish and the function
  returns neutral.
\<close>

theorem analyzeQuarterlyBias_needs_q1_counterexample:
  "60 \<le> length springSeries \<and>
   \<not> list_ex (on_quarter_end_day utcDate nov3) springSeries \<and>
   q2Window utcDate nov3 springSeries \<noteq> [] \<and>
   close (last springSeries) > Max (set (map high (q2Window utcDate nov3 springSeries))) \<and>
   quarterlyBias_spec utcDate nov3 springSeries = Bullish \<and>
   analyzeQuarterlyBias utcDate nov3 springSeries = Neutral"
  by (simp add: springSeries_def quarterlyBias_spec_def q2Window_def q3Window_def nov3_def
        list_ex_iff on_quarter_end_day_def utc_q_ends utc_q_starts date_le_def date_gt_def date_lt_def
        date_ge_def flatBar_def octBar_def analyzeQuarterlyBias_def)

text \<open>
  C9, amended. Under a calendar that puts the first instant of Mar 31, Jun 30 and Sep 30
  before that of the day after, for every series none of whose bars falls on Mar 31,
  Jun 30 or Sep 30 of the evaluation year after the first instant of that day, and that
  has fewer than 60 bars or a non-empty Q2 window, \<open>getQuarterlyBias\<close> returns the bias of the
  specification: bullish if the last close exceeds the greatest high of the Q2 window,
  bearish if it is below the least low of the Q3 window (the Q2 high when that window is
  empty), neutral otherwise, and neutral with fewer than 60 bars;
  \<open>analyzeQuarterlyBias\<close> returns the same when at least one bar is at or before Mar 31,
  and neutral when none is. Nothing is said of a series with a bar on the last day of a
  quarter.
\<close>

theorem quarterly_bias:
  "days_in_order mk now \<Longrightarrow>
   \<not> list_ex (on_quarter_end_day mk now) data \<Longrightarrow>
   length data < 60 \<or> q2Window mk now data \<noteq> [] \<Longrightarrow>
   getQuarterlyBias mk now data = quarterlyBias_spec mk now data \<and>
   analyzeQuarterlyBias mk now data =
     (if q1Window mk now data = [] then Neutral else quarterlyBias_spec mk now data)"
  using getQuarterlyBias_spec [of mk now data] windows_agree(1) [of mk now data]
  by (simp add: analyzeQuarterlyBias_getQuarterlyBias)

theorem quarterly_bias_witness:
  "days_in_order utcDate nov3 \<and>
   \<not> list_ex (on_quarter_end_day utcDate nov3) yearSeries \<and>
   (length yearSeries < 60 \<or> q2Window utcDate nov3 yearSeries \<noteq> []) \<and>
   q1Window utcDate nov3 yearSeries \<noteq> [] \<and>
   quarterlyBias_spec utcDate nov3 yearSeries = Bullish \<and>
   getQuarterlyBias utcDate nov3 yearSeries = Bullish \<and>
   analyzeQuarterlyBias utcDate nov3 yearSeries = Bullish"
proof -
  have nb: "\<not> list_ex (on_quarter_end_day utcDate nov3) yearSeries"
    by (simp add: yearSeries_def list_ex_iff on_quarter_end_day_def nov3_def utc_q_ends
        utc_q_starts
        date_gt_def date_lt_def flatBar_def marBar_def octBar_def)
  have h: "length yearSeries < 60 \<or> q2Window utcDate nov3 yearSeries \<noteq> []"
    by (simp add: yearSeries_def q2Window_def nov3_def utc_q_starts date_lt_def date_ge_def
        flatBar_def marBar_def octBar_def)
  have q1: "q1Window utcDate nov3 yearSeries \<noteq> []"
    by (simp add: yearSeries_def q1Window_def nov3_def utc_q_starts date_lt_def marBar_def)
  have s: "quarterlyBias_spec utcDate nov3 yearSeries = Bullish"
    by (simp add: yearSeries_def quarterlyBias_spec_def q2Window_def q3Window_def nov3_def
        utc_q_starts date_lt_def date_ge_def flatBar_def marBar_def octBar_def)
  show ?thesis
    using utc_days_in_order nb h q1 s quarterly_bias [OF utc_days_in_order nb h] by simp
qed

section \<open>Liquidity pools\<close>

lemma within_tolerance_pos:
  "0 < p \<Longrightarrow> within_tolerance x p = (\<bar>x - p\<bar> \<le> 0.005 * p)"
  by (simp add: within_tolerance_def div_le_def field_simps)

lemma equalLoop_eq:
  "equalLoop xs base bound j equal =
   equal + length (filter (\<lambda>j. within_tolerance (xs ! j) base) [j..<bound])"
proof (induction xs base bound j equal rule: equalLoop.induct)
  case (1 xs base bound j equal)
  show ?case
  proof (cases "j < bound")
    case True
    then show ?thesis
      using "1.IH" [OF True]
      by (subst equalLoop.simps) (simp add: upt_conv_Cons within_tolerance_def tolerance_def)
  next
    case False
    then show ?thesis by (subst equalLoop.simps) simp
  qed
qed

lemma poolsLoop_eq:
  "poolsLoop xs i pools = pools @ concat (map (poolAt 9 xs) [i..<length xs - 1])"
proof (induction xs i pools rule: poolsLoop.induct)
  case (1 xs i pools)
  show ?case
  proof (cases "int i < int (length xs) - 1")
    case True
    then have lt: "i < length xs - 1" by simp
    define equal where "equal = equalLoop xs (xs ! i) (min (i + 10) (length xs)) (i + 1) 1"
    define pool where "pool = \<lparr>ztype = liquidity_pool, price = xs ! i, strength = equal\<rparr>"
    define pools' where "pools' = (if equal \<ge> 2 then pools @ [pool] else pools)"
    have step: "poolsLoop xs i pools = poolsLoop xs (i + 1) pools'"
      by (subst poolsLoop.simps) (simp only: True if_True Let_def equal_def pool_def pools'_def)
    have ih: "poolsLoop xs (i + 1) pools' =
        pools' @ concat (map (poolAt 9 xs) [i + 1..<length xs - 1])"
      using "1.IH" [OF True refl refl] by (simp only: equal_def pool_def pools'_def)
    have eq: "equal = 1 + length (filter (\<lambda>j. within_tolerance (xs ! j) (xs ! i))
        [i + 1..<min (i + 1 + 9) (length xs)])"
    proof -
      have "i + 1 + 9 = i + 10" by simp
      then show ?thesis
        by (simp only: equal_def equalLoop_eq)
    qed
    have at: "poolAt 9 xs i = (if equal \<ge> 2 then [pool] else [])"
      unfolding poolAt_def Let_def pool_def eq by (rule refl)
    have upt: "[i..<length xs - 1] = i # [i + 1..<length xs - 1]"
      using lt by (simp add: upt_conv_Cons)
    show ?thesis
      unfolding step ih upt by (simp add: at pools'_def)
  next
    case False
    then have "\<not> i < length xs - 1" by simp
    with False show ?thesis by (subst poolsLoop.simps) simp
  qed
qed

lemma identifyLiquidityPools_spec:
  "identifyLiquidityPools data = liquidityPools_spec 9 data"
  by (simp add: identifyLiquidityPools_def liquidityPools_spec_def poolsLoop_eq
      pools_spec_def Let_def del: One_nat_def)

lemma poolSeries_highs:
  "map high poolSeries = [10, 100, 20, 30, 40, 50, 60, 70, 80, 90, 110, 100]"
  by (simp add: poolSeries_def mkBar_def)

lemma poolSeries_lows:
  "map low poolSeries = [5, 50, 6, 7, 8, 9, 11, 12, 13, 14, 15, 16]"
  by (simp add: poolSeries_def mkBar_def)

lemma upt_1_11: "[1..<11] = [1, 2, 3, 4, 5, 6, 7, 8, 9, 10::nat]"
  by (simp add: upt_rec)

lemma pools_spec_10_highs:
  "pools_spec 10 [10, 100, 20, 30, 40, 50, 60, 70, 80, 90, 110, 100] =
     [\<lparr>ztype = liquidity_pool, price = 100, strength = 2\<rparr>]"
  by (simp add: pools_spec_def poolAt_def within_tolerance_def div_le_def upt_1_11 upt_rec
      Let_def del: One_nat_def)

lemma pools_spec_9_highs:
  "pools_spec 9 [10, 100, 20, 30, 40, 50, 60, 70, 80, 90, 110, 100] = []"
  by (simp add: pools_spec_def poolAt_def within_tolerance_def div_le_def upt_1_11 upt_rec
      Let_def del: One_nat_def)

lemma pools_spec_lows:
  "pools_spec 10 [5, 50, 6, 7, 8, 9, 11, 12, 13, 14, 15, 16] = []"
  "pools_spec 9 [5, 50, 6, 7, 8, 9, 11, 12, 13, 14, 15, 16] = []"
  by (simp_all add: pools_spec_def poolAt_def within_tolerance_def div_le_def upt_1_11 upt_rec
      Let_def del: One_nat_def)

lemma liquidity_pools_pair:
  "identifyLiquidityPools pairSeries =
     [\<lparr>ztype = liquidity_pool, price = 100, strength = 2\<rparr>]"
  by (simp add: identifyLiquidityPools_spec liquidityPools_spec_def pairSeries_def mkBar_def
      pools_spec_def poolAt_def within_tolerance_def div_le_def upt_rec Let_def
      del: One_nat_def)

text \<open>
  C8, as the claim states it, fails: with the next up-to-10 highs counted, the high of 100
  at index 1 matches the high at index 11 and a pool of strength 2 is due;
  \<open>identifyLiquidityPools\<close> stops at index \<open>i + 9\<close> and emits no pool.
\<close>

theorem liquidity_pools_window_counterexample:
  "map high poolSeries ! 11 = map high poolSeries ! 1 \<and>
   liquidityPools_spec 10 poolSeries =
     [\<lparr>ztype = liquidity_pool, price = 100, strength = 2\<rparr>] \<and>
   identifyLiquidityPools poolSeries = []"
  by (simp add: identifyLiquidityPools_spec liquidityPools_spec_def poolSeries_highs
      poolSeries_lows pools_spec_10_highs pools_spec_9_highs pools_spec_lows)

text \<open>
  C8, amended. For every series, \<open>identifyLiquidityPools\<close> emits for each interior index
  \<open>i\<close>, in order, a pool at the high at \<open>i\<close> exactly when the bar at \<open>i\<close> together
  with the next up-to-9 highs within 0.5% relative tolerance of that high count at least
  2, with that count as its strength; then the same for the lows; the two lists are
  concatenated and nothing is removed.
\<close>

theorem liquidity_pools_window:
  "identifyLiquidityPools data =
     concat (map (poolAt 9 (map high data)) [1..<length data - 1]) @
     concat (map (poolAt 9 (map low data)) [1..<length data - 1])"
  using identifyLiquidityPools_spec [of data]
  by (simp add: liquidityPools_spec_def pools_spec_def)

end
